theory Spec2Isabelle
  imports Complex_Main
begin

section \<open>Predicted Mean Vote: the embedding of \<^verbatim>\<open>sustainability_calcs/pmv.py\<close>\<close>

text \<open>
  The program is one pure function, \<^verbatim>\<open>calculate_pmv\<close>. Its arguments and local
  variables are Python floats; here they are real numbers, and every operation is the
  exact one. Rounding, overflow and the IEEE special values are therefore outside this
  development: it is about the formula the code computes and about the two exceptions
  that exact arithmetic already has, which Python raises as follows.
  \<^item> \<^verbatim>\<open>a / b\<close> on floats raises \<^verbatim>\<open>ZeroDivisionError\<close> when \<^verbatim>\<open>b\<close> is zero;
  \<^item> \<^verbatim>\<open>math.sqrt(x)\<close> raises \<^verbatim>\<open>ValueError\<close> when \<^verbatim>\<open>x\<close> is negative.

  The optional arguments \<^verbatim>\<open>tr=None\<close> and \<^verbatim>\<open>pa=None\<close> are values of type
  \<open>real option\<close>.
\<close>

datatype error = ValueError | ZeroDivisionError

definition py_div :: "real \<Rightarrow> real \<Rightarrow> error + real" where
  "py_div a b = (if b = 0 then Inl ZeroDivisionError else Inr (a / b))"

definition math_sqrt :: "real \<Rightarrow> error + real" where
  "math_sqrt x = (if x < 0 then Inl ValueError else Inr (sqrt x))"

text \<open>
  The local variables of \<^verbatim>\<open>calculate_pmv\<close> when its last assignment (line 41) has
  run. The fields carry the names of the locals.
\<close>

record pmv_locals =
  loc_M :: real
  loc_W :: real
  loc_Icl :: real
  loc_ta :: real
  loc_tr :: real
  loc_pa :: real
  loc_hc :: real
  loc_fcl :: real
  loc_tcl :: real
  loc_hl1 :: real
  loc_hl2 :: real
  loc_hl3 :: real
  loc_hl4 :: real
  loc_hl5 :: real
  loc_hl6 :: real
  loc_pmv :: real

text \<open>
  The body of \<^verbatim>\<open>calculate_pmv\<close>, lines 18 to 41, statement by statement. An
  exception ends the run at the statement that raises it, so the order of the three
  fallible statements (lines 27, 30 and 34) is the source's.

  Line 30 raises its argument to the power \<^verbatim>\<open>0.25\<close> only in the branch where
  \<^verbatim>\<open>abs(ta - tr) > 0.1\<close>, so the base is positive there and the power is the real
  one, \<open>powr\<close>. Line 40 raises to the integer power 4, and its literal
  \<^verbatim>\<open>3.96e-8\<close> is written \<open>3.96 / 10 ^ 8\<close>.
\<close>

definition calculate_pmv_locals ::
  "real \<Rightarrow> real \<Rightarrow> real \<Rightarrow> real \<Rightarrow> real \<Rightarrow> real option \<Rightarrow> real option
     \<Rightarrow> error + pmv_locals" where
  "calculate_pmv_locals temperature_c humidity wind_speed met clo tr_arg pa_arg =
    (let M = met * 58.15;
         W = 0;
         Icl = clo * 0.155;
         ta = temperature_c;
         tr = (case tr_arg of None \<Rightarrow> ta | Some t \<Rightarrow> t)
     in
     case (case pa_arg of
             None \<Rightarrow>
               (case py_div (17.27 * ta) (ta + 237.3) of
                  Inl e \<Rightarrow> Inl e
                | Inr q \<Rightarrow> (let pws = 0.6108 * exp q in Inr (humidity / 100.0 * pws)))
           | Some p \<Rightarrow> Inr p) of
       Inl e \<Rightarrow> Inl e
     | Inr pa \<Rightarrow>
        (case (if \<bar>ta - tr\<bar> > 0.1 then Inr (2.38 * \<bar>ta - tr\<bar> powr 0.25)
               else (case math_sqrt wind_speed of
                       Inl e \<Rightarrow> Inl e
                     | Inr s \<Rightarrow> Inr (12.1 * s))) of
           Inl e \<Rightarrow> Inl e
         | Inr hc \<Rightarrow>
            (let fcl = (if clo > 0.5 then 1.05 + 0.1 * clo else 1 + 0.2 * clo) in
             (case py_div (35.5 - ta) (3.5 * (6.45 * Icl + 0.1)) of
                Inl e \<Rightarrow> Inl e
              | Inr q \<Rightarrow>
                 (let tcl = ta + q;
                      hl1 = 3.05 * 0.001 * (5733 - (6.99 * (M - W)) - pa * 1000);
                      hl2 = 0.42 * ((M - W) - 58.15);
                      hl3 = 1.7 * 0.00001 * M * (5867 - pa * 1000);
                      hl4 = 0.0014 * M * (34 - ta);
                      hl5 = fcl * hc * (tcl - ta);
                      hl6 = fcl * (3.96 / 10 ^ 8) * ((tcl + 273) ^ 4 - (tr + 273) ^ 4);
                      pmv = (0.303 * exp (- 0.036 * M) + 0.028)
                              * ((M - W) - hl1 - hl2 - hl3 - hl4 - hl5 - hl6)
                  in Inr \<lparr>loc_M = M, loc_W = W, loc_Icl = Icl, loc_ta = ta, loc_tr = tr,
                           loc_pa = pa, loc_hc = hc, loc_fcl = fcl, loc_tcl = tcl,
                           loc_hl1 = hl1, loc_hl2 = hl2, loc_hl3 = hl3, loc_hl4 = hl4,
                           loc_hl5 = hl5, loc_hl6 = hl6, loc_pmv = pmv\<rparr>)))))"

text \<open>Line 42: the function returns the local \<^verbatim>\<open>pmv\<close>.\<close>

definition calculate_pmv ::
  "real \<Rightarrow> real \<Rightarrow> real \<Rightarrow> real \<Rightarrow> real \<Rightarrow> real option \<Rightarrow> real option \<Rightarrow> error + real" where
  "calculate_pmv temperature_c humidity wind_speed met clo tr_arg pa_arg =
    (case calculate_pmv_locals temperature_c humidity wind_speed met clo tr_arg pa_arg of
       Inl e \<Rightarrow> Inl e
     | Inr s \<Rightarrow> Inr (loc_pmv s))"



section \<open>The closed form of the specification\<close>







section \<open>The outcome of a call\<close>






section \<open>The two threshold branches\<close>






section \<open>The heat-loss term \<^verbatim>\<open>hl2\<close>\<close>

text \<open>
  C8. In every call that reaches its return statement, \<open>hl2 = 0.42 * ((M - W) - 58.15)\<close>
  with \<open>M = met * 58.15\<close> and \<open>W = 0\<close>, with no clamping: it is negative exactly when
  \<open>met < 1\<close>, and the result subtracts it as it is.
\<close>

theorem hl2_unclamped:
  assumes "calculate_pmv_locals t rh v met clo tr_arg pa_arg = Inr s"
  shows "loc_M s = met * 58.15
       \<and> loc_W s = 0
       \<and> loc_hl2 s = 0.42 * ((loc_M s - loc_W s) - 58.15)
       \<and> (loc_hl2 s < 0) = (met < 1)
       \<and> loc_pmv s = (0.303 * exp (- 0.036 * loc_M s) + 0.028)
                        * ((loc_M s - loc_W s) - loc_hl1 s - loc_hl2 s - loc_hl3 s
                             - loc_hl4 s - loc_hl5 s - loc_hl6 s)"
  using assms
  by (auto simp add: calculate_pmv_locals_def py_div_def math_sqrt_def Let_def
        split: option.splits if_splits sum.splits)

text \<open>With \<open>met = 0.8\<close> the term is \<open>0.42 * (46.52 - 58.15) = - 4.8846\<close>.\<close>

theorem hl2_unclamped_witness:
  "\<exists>s. calculate_pmv_locals 25 50 0.1 0.8 0.5 None None = Inr s
       \<and> loc_hl2 s = - 4.8846 \<and> loc_hl2 s < 0"
proof -
  obtain s where run: "calculate_pmv_locals 25 50 0.1 0.8 0.5 None None = Inr s"
    by (simp add: calculate_pmv_locals_def py_div_def math_sqrt_def Let_def)
  from hl2_unclamped [OF run] have "loc_hl2 s = - 4.8846" and "loc_hl2 s < 0"
    by simp_all
  with run show ?thesis by blast
qed


section \<open>Failure\<close>




section \<open>The optional arguments\<close>

text \<open>
  C6. For every input, the call with \<^verbatim>\<open>tr\<close> omitted gives the same outcome (the same
  number, or the same exception) as the call with \<^verbatim>\<open>tr\<close> equal to the air temperature,
  all other arguments the same.
\<close>

theorem calculate_pmv_tr_default:
  "calculate_pmv temperature_c humidity wind_speed met clo None pa_arg
     = calculate_pmv temperature_c humidity wind_speed met clo (Some temperature_c) pa_arg"
  by (simp add: calculate_pmv_def calculate_pmv_locals_def)

text \<open>
  C10. When \<^verbatim>\<open>pa\<close> is given, the outcome does not depend on the humidity argument:
  two calls that differ in the humidity only, with the same given \<^verbatim>\<open>pa\<close>, give the
  same outcome.
\<close>

theorem calculate_pmv_humidity_unused:
  "calculate_pmv temperature_c humidity1 wind_speed met clo tr_arg (Some p)
     = calculate_pmv temperature_c humidity2 wind_speed met clo tr_arg (Some p)"
  by (simp add: calculate_pmv_def calculate_pmv_locals_def)





section \<open>Air velocity\<close>








end
